theory Spec2Isabelle
  imports Complex_Main
begin

section \<open>Python values used by the control layer\<close>

text \<open>
  The control layer (\<^verbatim>\<open>control.py\<close>) is dynamically typed: a sensor reading is a
  \<^verbatim>\<open>Dict[str, Any]\<close>, and whatever value it carries is stored in the room and later
  handed to the state machines. The values are therefore modelled as a datatype of
  Python objects. A Python \<^verbatim>\<open>float\<close> is an IEEE double: a finite real number, an
  infinity or NaN. Every double is covered by \<open>pyfloat\<close>; the comparisons of the source
  are against the integer literals 24, 28 and 300, which Python compares exactly.
\<close>

datatype pyfloat = FVal real | FPosInf | FNegInf | FNaN

datatype pyval = PNone | PBool bool | PInt int | PFloat pyfloat | PStr string

datatype error = KeyError string | TypeError

text \<open>Comparison of a float with an integer literal: \<^verbatim>\<open>f >= k\<close> and \<^verbatim>\<open>f < k\<close>.
  Every comparison with NaN is false.\<close>

fun float_ge :: "pyfloat \<Rightarrow> int \<Rightarrow> bool" where
  "float_ge (FVal x) k = (real_of_int k \<le> x)"
| "float_ge FPosInf k = True"
| "float_ge FNegInf k = False"
| "float_ge FNaN k = False"

fun float_lt :: "pyfloat \<Rightarrow> int \<Rightarrow> bool" where
  "float_lt (FVal x) k = (x < real_of_int k)"
| "float_lt FPosInf k = False"
| "float_lt FNegInf k = True"
| "float_lt FNaN k = False"

text \<open>Truth value of an object, as \<^verbatim>\<open>not x\<close>, \<^verbatim>\<open>if x\<close> and \<^verbatim>\<open>x and y\<close> test it.\<close>

fun py_truthy :: "pyval \<Rightarrow> bool" where
  "py_truthy PNone = False"
| "py_truthy (PBool b) = b"
| "py_truthy (PInt i) = (i \<noteq> 0)"
| "py_truthy (PFloat (FVal x)) = (x \<noteq> 0)"
| "py_truthy (PFloat FPosInf) = True"
| "py_truthy (PFloat FNegInf) = True"
| "py_truthy (PFloat FNaN) = True"
| "py_truthy (PStr s) = (s \<noteq> [])"

text \<open>\<^verbatim>\<open>v >= k\<close> and \<^verbatim>\<open>v < k\<close> for an object \<open>v\<close> and an integer literal \<open>k\<close>:
  \<^verbatim>\<open>bool\<close> is a subclass of \<^verbatim>\<open>int\<close> (False is 0, True is 1); ordering \<^verbatim>\<open>None\<close>
  or a \<^verbatim>\<open>str\<close> against an \<^verbatim>\<open>int\<close> raises TypeError.\<close>

fun py_ge :: "pyval \<Rightarrow> int \<Rightarrow> error + bool" where
  "py_ge PNone k = Inl TypeError"
| "py_ge (PBool b) k = Inr (k \<le> (if b then 1 else 0))"
| "py_ge (PInt i) k = Inr (k \<le> i)"
| "py_ge (PFloat f) k = Inr (float_ge f k)"
| "py_ge (PStr s) k = Inl TypeError"

fun py_lt :: "pyval \<Rightarrow> int \<Rightarrow> error + bool" where
  "py_lt PNone k = Inl TypeError"
| "py_lt (PBool b) k = Inr ((if b then 1 else 0) < k)"
| "py_lt (PInt i) k = Inr (i < k)"
| "py_lt (PFloat f) k = Inr (float_lt f k)"
| "py_lt (PStr s) k = Inl TypeError"

section \<open>ACController\<close>

text \<open>
  \<^verbatim>\<open>class ACController\<close>: one attribute \<^verbatim>\<open>state\<close>, a \<^verbatim>\<open>str\<close>. A method call
  is modelled by state passing: it takes the object and returns the outcome of the call
  (the returned value, or the exception raised) together with the object afterwards.
\<close>

record ACController =
  state :: string

definition ACController_init :: ACController where
  "ACController_init = \<lparr>ACController.state = ''OFF''\<rparr>"

text \<open>
  \<^verbatim>\<open>ACController.update_state(self, occupied, temp)\<close>, branch by branch. A comparison
  that raises does so before any assignment, so the object is unchanged then. When
  \<^verbatim>\<open>self.state\<close> is none of the three names no branch assigns.
\<close>

definition ACController_update_state ::
  "ACController \<Rightarrow> pyval \<Rightarrow> pyval \<Rightarrow> (error + string) \<times> ACController" where
  "ACController_update_state self occupied temp =
     (if \<not> py_truthy occupied then
        (Inr ''OFF'', self\<lparr>ACController.state := ''OFF''\<rparr>)
      else if ACController.state self = ''OFF'' then
        (case py_ge temp 28 of
           Inl e \<Rightarrow> (Inl e, self)
         | Inr b \<Rightarrow>
             (let s = (if b then ''COOLING'' else ''STANDBY'')
              in (Inr s, self\<lparr>ACController.state := s\<rparr>)))
      else if ACController.state self = ''STANDBY'' then
        (case py_ge temp 28 of
           Inl e \<Rightarrow> (Inl e, self)
         | Inr b \<Rightarrow>
             (if b then (Inr ''COOLING'', self\<lparr>ACController.state := ''COOLING''\<rparr>)
              else (Inr (ACController.state self), self)))
      else if ACController.state self = ''COOLING'' then
        (case py_lt temp 24 of
           Inl e \<Rightarrow> (Inl e, self)
         | Inr b \<Rightarrow>
             (if b then (Inr ''STANDBY'', self\<lparr>ACController.state := ''STANDBY''\<rparr>)
              else (Inr (ACController.state self), self)))
      else (Inr (ACController.state self), self))"

text \<open>
  A caller's sequence of \<^verbatim>\<open>update_state\<close> calls on one controller, each call given
  by its two arguments. A call that raises leaves the object as it was, and the caller
  goes on with the next call.
\<close>

fun ac_run :: "ACController \<Rightarrow> (pyval \<times> pyval) list \<Rightarrow> ACController" where
  "ac_run self [] = self"
| "ac_run self (c # cs) = ac_run (snd (ACController_update_state self (fst c) (snd c))) cs"

section \<open>LightController\<close>

record LightController =
  state :: string

definition LightController_init :: LightController where
  "LightController_init = \<lparr>LightController.state = ''OFF''\<rparr>"

text \<open>
  \<^verbatim>\<open>LightController.update_state(self, occupied, light_level)\<close>. The condition
  \<^verbatim>\<open>occupied and light_level < 300\<close> short-circuits: the comparison is evaluated
  only when \<^verbatim>\<open>occupied\<close> is true.
\<close>

definition LightController_update_state ::
  "LightController \<Rightarrow> pyval \<Rightarrow> pyval \<Rightarrow> (error + string) \<times> LightController" where
  "LightController_update_state self occupied light_level =
     (if \<not> py_truthy occupied then
        (Inr ''OFF'', self\<lparr>LightController.state := ''OFF''\<rparr>)
      else
        (case py_lt light_level 300 of
           Inl e \<Rightarrow> (Inl e, self)
         | Inr b \<Rightarrow>
             (if b then (Inr ''ON'', self\<lparr>LightController.state := ''ON''\<rparr>)
              else (Inr ''OFF'', self\<lparr>LightController.state := ''OFF''\<rparr>))))"

section \<open>RoomController\<close>

record RoomController =
  room_name :: string
  ac :: ACController
  lights :: LightController
  current_temp :: pyval
  is_occupied :: pyval
  current_light_level :: pyval
  manual_ac_override :: pyval
  manual_light_override :: pyval

definition RoomController_init :: "string \<Rightarrow> RoomController" where
  "RoomController_init name =
     \<lparr>room_name = name,
      ac = ACController_init,
      lights = LightController_init,
      current_temp = PFloat (FVal 20),
      is_occupied = PBool False,
      current_light_level = PInt 500,
      manual_ac_override = PNone,
      manual_light_override = PNone\<rparr>"

text \<open>\<^verbatim>\<open>sensor_data.get('sensor_type')\<close>: the value, or \<^verbatim>\<open>None\<close> for an absent key.\<close>

definition dict_get :: "(string \<rightharpoonup> pyval) \<Rightarrow> string \<Rightarrow> pyval" where
  "dict_get d k = (case d k of None \<Rightarrow> PNone | Some v \<Rightarrow> v)"

text \<open>\<^verbatim>\<open>sensor_data[k]\<close>: the value, or KeyError for an absent key.\<close>

definition dict_item :: "(string \<rightharpoonup> pyval) \<Rightarrow> string \<Rightarrow> error + pyval" where
  "dict_item d k = (case d k of None \<Rightarrow> Inl (KeyError k) | Some v \<Rightarrow> Inr v)"

text \<open>
  \<^verbatim>\<open>RoomController.update(self, sensor_data)\<close>. The subscript on the right-hand side
  is evaluated before the attribute is assigned, so a KeyError leaves the room unchanged.
\<close>

definition RoomController_update ::
  "RoomController \<Rightarrow> (string \<rightharpoonup> pyval) \<Rightarrow> (error + unit) \<times> RoomController" where
  "RoomController_update self sensor_data =
     (let stype = dict_get sensor_data ''sensor_type'' in
      if stype = PStr ''temperature'' then
        (case dict_item sensor_data ''value'' of
           Inl e \<Rightarrow> (Inl e, self)
         | Inr v \<Rightarrow> (Inr (), self\<lparr>current_temp := v\<rparr>))
      else if stype = PStr ''pir'' then
        (case dict_item sensor_data ''occupied'' of
           Inl e \<Rightarrow> (Inl e, self)
         | Inr v \<Rightarrow> (Inr (), self\<lparr>is_occupied := v\<rparr>))
      else if stype = PStr ''ldr'' then
        (case dict_item sensor_data ''value'' of
           Inl e \<Rightarrow> (Inl e, self)
         | Inr v \<Rightarrow> (Inr (), self\<lparr>current_light_level := v\<rparr>))
      else (Inr (), self))"

section \<open>Properties of ACController\<close>

text \<open>
  C2. Whatever the stored state and whatever the temperature argument (any object, even
  one that cannot be compared), \<^verbatim>\<open>update_state\<close> called with \<^verbatim>\<open>occupied=False\<close>
  returns \<^verbatim>\<open>"OFF"\<close> and leaves \<^verbatim>\<open>"OFF"\<close> stored.
\<close>

theorem update_state_unoccupied_off:
  "ACController_update_state self (PBool False) temp
     = (Inr ''OFF'', self\<lparr>ACController.state := ''OFF''\<rparr>)"
  by (simp add: ACController_update_state_def)


theorem update_state_unoccupied_off_witness:
  "ACController_update_state \<lparr>ACController.state = ''COOLING''\<rparr> (PBool False) (PFloat (FVal 30))
     = (Inr ''OFF'', \<lparr>ACController.state = ''OFF''\<rparr>)"
  using update_state_unoccupied_off [of "\<lparr>ACController.state = ''COOLING''\<rparr>" "PFloat (FVal 30)"]
  by simp

subsection \<open>Single calls, for arbitrary argument objects\<close>

lemma py_ge_imp_not_lt:
  "py_ge v k = Inr True \<Longrightarrow> j \<le> k \<Longrightarrow> py_lt v j = Inr False"
proof (cases v)
  case (PFloat f)
  assume "py_ge v k = Inr True" and "j \<le> k"
  with PFloat show ?thesis by (cases f) auto
qed auto

lemma py_lt_imp_not_ge:
  "py_lt v k = Inr True \<Longrightarrow> k \<le> j \<Longrightarrow> py_ge v j = Inr False"
proof (cases v)
  case (PFloat f)
  assume "py_lt v k = Inr True" and "k \<le> j"
  with PFloat show ?thesis by (cases f) auto
qed auto

lemma ac_unoccupied:
  "\<not> py_truthy occupied \<Longrightarrow>
   ACController_update_state self occupied temp
     = (Inr ''OFF'', self\<lparr>ACController.state := ''OFF''\<rparr>)"
  by (simp add: ACController_update_state_def)

lemma ac_off_occupied:
  "ACController.state self = ''OFF'' \<Longrightarrow> py_truthy occupied \<Longrightarrow> py_ge temp 28 = Inr b \<Longrightarrow>
   ACController_update_state self occupied temp
     = (Inr (if b then ''COOLING'' else ''STANDBY''),
        self\<lparr>ACController.state := (if b then ''COOLING'' else ''STANDBY'')\<rparr>)"
  by (simp add: ACController_update_state_def Let_def)

lemma ac_standby_occupied:
  "ACController.state self = ''STANDBY'' \<Longrightarrow> py_truthy occupied \<Longrightarrow> py_ge temp 28 = Inr b \<Longrightarrow>
   ACController_update_state self occupied temp
     = (if b then (Inr ''COOLING'', self\<lparr>ACController.state := ''COOLING''\<rparr>)
        else (Inr ''STANDBY'', self))"
  by (simp add: ACController_update_state_def)

lemma ac_cooling_occupied:
  "ACController.state self = ''COOLING'' \<Longrightarrow> py_truthy occupied \<Longrightarrow> py_lt temp 24 = Inr b \<Longrightarrow>
   ACController_update_state self occupied temp
     = (if b then (Inr ''STANDBY'', self\<lparr>ACController.state := ''STANDBY''\<rparr>)
        else (Inr ''COOLING'', self))"
  by (simp add: ACController_update_state_def)

lemma ac_raise_unchanged:
  "ACController_update_state self occupied temp = (Inl e, self') \<Longrightarrow> self' = self"
  by (auto simp: ACController_update_state_def Let_def split: if_splits sum.splits)

text \<open>
  C1. From \<^verbatim>\<open>"COOLING"\<close> with \<^verbatim>\<open>occupied=True\<close>: a float below 24 gives
  \<^verbatim>\<open>"STANDBY"\<close> (returned and stored); a float that is at least 24 gives
  \<^verbatim>\<open>"COOLING"\<close> and the object is unchanged, in particular for every finite value in
  the band from 24 (included) to 28 (excluded).
\<close>

theorem cooling_hysteresis:
  assumes "ACController.state self = ''COOLING''"
  shows "(float_lt t 24 \<longrightarrow>
            ACController_update_state self (PBool True) (PFloat t)
              = (Inr ''STANDBY'', self\<lparr>ACController.state := ''STANDBY''\<rparr>))
       \<and> (float_ge t 24 \<longrightarrow>
            ACController_update_state self (PBool True) (PFloat t) = (Inr ''COOLING'', self))
       \<and> (\<forall>x. 24 \<le> x \<and> x < 28 \<longrightarrow>
            ACController_update_state self (PBool True) (PFloat (FVal x))
              = (Inr ''COOLING'', self))"
proof (intro conjI impI allI)
  assume "float_lt t 24"
  then have "py_lt (PFloat t) 24 = Inr True" by simp
  with assms show "ACController_update_state self (PBool True) (PFloat t)
      = (Inr ''STANDBY'', self\<lparr>ACController.state := ''STANDBY''\<rparr>)"
    by (simp add: ac_cooling_occupied)
next
  assume "float_ge t 24"
  then have "py_ge (PFloat t) 24 = Inr True" by simp
  then have "py_lt (PFloat t) 24 = Inr False" by (rule py_ge_imp_not_lt) simp
  with assms show "ACController_update_state self (PBool True) (PFloat t) = (Inr ''COOLING'', self)"
    by (simp add: ac_cooling_occupied)
next
  fix x :: real
  assume "24 \<le> x \<and> x < 28"
  then have "py_lt (PFloat (FVal x)) 24 = Inr False" by simp
  with assms show "ACController_update_state self (PBool True) (PFloat (FVal x))
      = (Inr ''COOLING'', self)"
    by (simp add: ac_cooling_occupied)
qed

theorem cooling_hysteresis_witness:
  "ACController_update_state \<lparr>ACController.state = ''COOLING''\<rparr> (PBool True) (PFloat (FVal 24))
     = (Inr ''COOLING'', \<lparr>ACController.state = ''COOLING''\<rparr>)
   \<and> ACController_update_state \<lparr>ACController.state = ''COOLING''\<rparr> (PBool True) (PFloat (FVal 26))
     = (Inr ''COOLING'', \<lparr>ACController.state = ''COOLING''\<rparr>)"
  using cooling_hysteresis [of "\<lparr>ACController.state = ''COOLING''\<rparr>" "FVal 24"]
  by simp

text \<open>
  C4. From \<^verbatim>\<open>"OFF"\<close> with \<^verbatim>\<open>occupied=True\<close>: the result (returned and stored) is
  \<^verbatim>\<open>"COOLING"\<close> when the float is at least 28, the bound included, and
  \<^verbatim>\<open>"STANDBY"\<close> for every other float.
\<close>

theorem off_occupied_transition:
  assumes "ACController.state self = ''OFF''"
  shows "ACController_update_state self (PBool True) (PFloat t)
           = (if float_ge t 28
              then (Inr ''COOLING'', self\<lparr>ACController.state := ''COOLING''\<rparr>)
              else (Inr ''STANDBY'', self\<lparr>ACController.state := ''STANDBY''\<rparr>))"
  using assms ac_off_occupied [of self "PBool True" "PFloat t" "float_ge t 28"]
  by simp

theorem off_occupied_transition_witness:
  "ACController_update_state ACController_init (PBool True) (PFloat (FVal 28))
     = (Inr ''COOLING'', \<lparr>ACController.state = ''COOLING''\<rparr>)"
  using off_occupied_transition [of ACController_init "FVal 28"]
  by (simp add: ACController_init_def)

text \<open>
  C5. From \<^verbatim>\<open>"STANDBY"\<close> with \<^verbatim>\<open>occupied=True\<close>: a float that is at least 28
  gives \<^verbatim>\<open>"COOLING"\<close> (returned and stored); a float below 28 gives
  \<^verbatim>\<open>"STANDBY"\<close> and the object is unchanged.
\<close>

theorem standby_occupied_transition:
  assumes "ACController.state self = ''STANDBY''"
  shows "(float_ge t 28 \<longrightarrow>
            ACController_update_state self (PBool True) (PFloat t)
              = (Inr ''COOLING'', self\<lparr>ACController.state := ''COOLING''\<rparr>))
       \<and> (float_lt t 28 \<longrightarrow>
            ACController_update_state self (PBool True) (PFloat t) = (Inr ''STANDBY'', self))"
proof (intro conjI impI)
  assume "float_ge t 28"
  then have "py_ge (PFloat t) 28 = Inr True" by simp
  with assms show "ACController_update_state self (PBool True) (PFloat t)
      = (Inr ''COOLING'', self\<lparr>ACController.state := ''COOLING''\<rparr>)"
    by (simp add: ac_standby_occupied)
next
  assume "float_lt t 28"
  then have "py_lt (PFloat t) 28 = Inr True" by simp
  then have "py_ge (PFloat t) 28 = Inr False" by (rule py_lt_imp_not_ge) simp
  with assms show "ACController_update_state self (PBool True) (PFloat t) = (Inr ''STANDBY'', self)"
    by (simp add: ac_standby_occupied)
qed

theorem standby_occupied_transition_witness:
  "ACController_update_state \<lparr>ACController.state = ''STANDBY''\<rparr> (PBool True) (PFloat (FVal 28))
     = (Inr ''COOLING'', \<lparr>ACController.state = ''COOLING''\<rparr>)
   \<and> ACController_update_state \<lparr>ACController.state = ''STANDBY''\<rparr> (PBool True) (PFloat (FVal 27))
     = (Inr ''STANDBY'', \<lparr>ACController.state = ''STANDBY''\<rparr>)"
  using standby_occupied_transition [of "\<lparr>ACController.state = ''STANDBY''\<rparr>" "FVal 28"]
    standby_occupied_transition [of "\<lparr>ACController.state = ''STANDBY''\<rparr>" "FVal 27"]
  by simp


subsection \<open>Sequences of calls\<close>

lemma ac_run_append: "ac_run self (xs @ ys) = ac_run (ac_run self xs) ys"
  by (induction xs arbitrary: self) simp_all

lemma ac_stays_cooling_step:
  assumes "ACController.state self = ''COOLING''"
    and "py_truthy occupied"
    and "py_lt temp 24 \<noteq> Inr True"
  shows "ACController.state (snd (ACController_update_state self occupied temp)) = ''COOLING''"
proof (cases "py_lt temp 24")
  case (Inl e)
  with assms show ?thesis by (simp add: ACController_update_state_def)
next
  case (Inr b)
  with assms have "\<not> b" by simp
  with assms Inr show ?thesis by (simp add: ac_cooling_occupied)
qed

lemma ac_leaves_cooling_step:
  assumes "ACController.state self = ''COOLING''"
    and "\<not> py_truthy occupied \<or> py_lt temp 24 = Inr True"
  shows "ACController.state (snd (ACController_update_state self occupied temp)) \<noteq> ''COOLING''"
proof (cases "py_truthy occupied")
  case True
  with assms have "py_lt temp 24 = Inr True" by simp
  with assms True show ?thesis by (simp add: ac_cooling_occupied)
next
  case False
  then show ?thesis by (simp add: ac_unoccupied)
qed

lemma ac_run_stays_cooling:
  "ACController.state self = ''COOLING'' \<Longrightarrow>
   (\<forall>c \<in> set cs. py_truthy (fst c) \<and> py_lt (snd c) 24 \<noteq> Inr True) \<Longrightarrow>
   ACController.state (ac_run self cs) = ''COOLING''"
proof (induction cs arbitrary: self)
  case Nil
  then show ?case by simp
next
  case (Cons c cs)
  from Cons.prems have "ACController.state (snd (ACController_update_state self (fst c) (snd c))) = ''COOLING''"
    by (simp add: ac_stays_cooling_step)
  with Cons.prems show ?case by (simp add: Cons.IH)
qed

lemma ac_run_cooling_last:
  assumes "ACController.state (ac_run ACController_init calls) = ''COOLING''"
  shows "calls \<noteq> [] \<and> py_truthy (fst (last calls))"
proof (cases calls rule: rev_cases)
  case Nil
  with assms show ?thesis by (simp add: ACController_init_def)
next
  case (snoc cs c)
  have "py_truthy (fst c)"
  proof (rule ccontr)
    assume "\<not> py_truthy (fst c)"
    then have "ACController.state (ac_run ACController_init calls) = ''OFF''"
      by (simp add: snoc ac_run_append ac_unoccupied)
    with assms show False by simp
  qed
  with snoc show ?thesis by simp
qed

text \<open>
  C3. Start from a new controller (state \<^verbatim>\<open>"OFF"\<close>) and make any finite sequence of
  \<^verbatim>\<open>update_state\<close> calls. If the stored state is then \<^verbatim>\<open>"COOLING"\<close>, there was a
  call and the most recent one had a true \<^verbatim>\<open>occupied\<close> (for a \<^verbatim>\<open>bool\<close> argument,
  \<open>py_truthy (PBool b) = b\<close>). If the state is \<^verbatim>\<open>"COOLING"\<close> after the calls \<open>pre\<close>, it
  is still \<^verbatim>\<open>"COOLING"\<close> after any further calls \<open>post\<close> none of which has a false
  \<^verbatim>\<open>occupied\<close> or a temperature below 24; and one further call that has a false
  \<^verbatim>\<open>occupied\<close> or a temperature below 24 ends it.
\<close>

theorem cooling_reachable_invariant:
  "(ACController.state (ac_run ACController_init calls) = ''COOLING'' \<longrightarrow>
      calls \<noteq> [] \<and> py_truthy (fst (last calls)))
   \<and> (ACController.state (ac_run ACController_init pre) = ''COOLING'' \<and>
      (\<forall>c \<in> set post. py_truthy (fst c) \<and> py_lt (snd c) 24 \<noteq> Inr True) \<longrightarrow>
      ACController.state (ac_run ACController_init (pre @ post)) = ''COOLING'')
   \<and> (ACController.state (ac_run ACController_init pre) = ''COOLING'' \<and>
      (\<not> py_truthy occupied \<or> py_lt temp 24 = Inr True) \<longrightarrow>
      ACController.state (ac_run ACController_init (pre @ [(occupied, temp)])) \<noteq> ''COOLING'')"
proof (intro conjI impI)
  assume "ACController.state (ac_run ACController_init calls) = ''COOLING''"
  then show "calls \<noteq> []" and "py_truthy (fst (last calls))"
    using ac_run_cooling_last by blast+
next
  assume "ACController.state (ac_run ACController_init pre) = ''COOLING'' \<and>
    (\<forall>c \<in> set post. py_truthy (fst c) \<and> py_lt (snd c) 24 \<noteq> Inr True)"
  then show "ACController.state (ac_run ACController_init (pre @ post)) = ''COOLING''"
    by (simp add: ac_run_append ac_run_stays_cooling)
next
  assume "ACController.state (ac_run ACController_init pre) = ''COOLING'' \<and>
    (\<not> py_truthy occupied \<or> py_lt temp 24 = Inr True)"
  then show "ACController.state (ac_run ACController_init (pre @ [(occupied, temp)])) \<noteq> ''COOLING''"
    by (simp add: ac_run_append ac_leaves_cooling_step)
qed

theorem cooling_reachable_invariant_witness:
  "ACController.state (ac_run ACController_init [(PBool True, PFloat (FVal 30))]) = ''COOLING''
   \<and> py_truthy (fst (last [(PBool True, PFloat (FVal 30))]))
   \<and> ACController.state (ac_run ACController_init
        ([(PBool True, PFloat (FVal 30))] @ [(PBool True, PFloat (FVal 26)), (PBool True, PFloat (FVal 24))]))
       = ''COOLING''
   \<and> ACController.state (ac_run ACController_init
        ([(PBool True, PFloat (FVal 30))] @ [(PBool True, PFloat (FVal 23))])) \<noteq> ''COOLING''"
proof -
  have start: "ACController.state (ac_run ACController_init [(PBool True, PFloat (FVal 30))]) = ''COOLING''"
    by (simp add: ACController_init_def ACController_update_state_def Let_def)
  have band: "\<forall>c \<in> set [(PBool True, PFloat (FVal 26)), (PBool True, PFloat (FVal 24))].
      py_truthy (fst c) \<and> py_lt (snd c) 24 \<noteq> Inr True"
    by simp
  have below: "\<not> py_truthy (PBool True) \<or> py_lt (PFloat (FVal 23)) 24 = Inr True"
    by simp
  from start band below
    cooling_reachable_invariant [of "[(PBool True, PFloat (FVal 30))]" "[(PBool True, PFloat (FVal 30))]"
      "[(PBool True, PFloat (FVal 26)), (PBool True, PFloat (FVal 24))]" "PBool True" "PFloat (FVal 23)"]
  show ?thesis by simp
qed

section \<open>Properties of LightController\<close>

text \<open>
  C6. For every prior state, every \<^verbatim>\<open>bool\<close> \<open>occupied\<close> and every \<^verbatim>\<open>int\<close>
  \<open>light_level\<close>, \<^verbatim>\<open>update_state\<close> returns and stores \<^verbatim>\<open>"ON"\<close> when \<open>occupied\<close> holds
  and \<open>light_level < 300\<close>, and \<^verbatim>\<open>"OFF"\<close> otherwise; the returned value is \<^verbatim>\<open>"ON"\<close>
  exactly in that case; it does not depend on the prior state; 299 with
  \<^verbatim>\<open>occupied=True\<close> gives \<^verbatim>\<open>"ON"\<close> and 300 gives \<^verbatim>\<open>"OFF"\<close>.
\<close>

theorem light_update_state_rule:
  "LightController_update_state self (PBool occupied) (PInt light_level)
     = (Inr (if occupied \<and> light_level < 300 then ''ON'' else ''OFF''),
        self\<lparr>LightController.state := (if occupied \<and> light_level < 300 then ''ON'' else ''OFF'')\<rparr>)
   \<and> ((fst (LightController_update_state self (PBool occupied) (PInt light_level)) = Inr ''ON'')
        = (occupied \<and> light_level < 300))
   \<and> fst (LightController_update_state self (PBool occupied) (PInt light_level))
       = fst (LightController_update_state self' (PBool occupied) (PInt light_level))
   \<and> fst (LightController_update_state self (PBool True) (PInt 299)) = Inr ''ON''
   \<and> fst (LightController_update_state self (PBool True) (PInt 300)) = Inr ''OFF''"
  by (simp add: LightController_update_state_def)

theorem light_update_state_rule_witness:
  "LightController_update_state \<lparr>LightController.state = ''ON''\<rparr> (PBool True) (PInt 300)
     = (Inr ''OFF'', \<lparr>LightController.state = ''OFF''\<rparr>)
   \<and> LightController_update_state \<lparr>LightController.state = ''OFF''\<rparr> (PBool True) (PInt 299)
     = (Inr ''ON'', \<lparr>LightController.state = ''ON''\<rparr>)"
  using light_update_state_rule [of "\<lparr>LightController.state = ''ON''\<rparr>" True 300]
    light_update_state_rule [of "\<lparr>LightController.state = ''OFF''\<rparr>" True 299]
  by simp


section \<open>Properties of RoomController\<close>

lemma update_temperature:
  "sensor_data ''sensor_type'' = Some (PStr ''temperature'') \<Longrightarrow>
   RoomController_update self sensor_data
     = (case sensor_data ''value'' of
          None \<Rightarrow> (Inl (KeyError ''value''), self)
        | Some v \<Rightarrow> (Inr (), self\<lparr>current_temp := v\<rparr>))"
  by (simp add: RoomController_update_def dict_get_def dict_item_def split: option.split)

lemma update_pir:
  "sensor_data ''sensor_type'' = Some (PStr ''pir'') \<Longrightarrow>
   RoomController_update self sensor_data
     = (case sensor_data ''occupied'' of
          None \<Rightarrow> (Inl (KeyError ''occupied''), self)
        | Some v \<Rightarrow> (Inr (), self\<lparr>is_occupied := v\<rparr>))"
  by (simp add: RoomController_update_def dict_get_def dict_item_def split: option.split)

lemma update_ldr:
  "sensor_data ''sensor_type'' = Some (PStr ''ldr'') \<Longrightarrow>
   RoomController_update self sensor_data
     = (case sensor_data ''value'' of
          None \<Rightarrow> (Inl (KeyError ''value''), self)
        | Some v \<Rightarrow> (Inr (), self\<lparr>current_light_level := v\<rparr>))"
  by (simp add: RoomController_update_def dict_get_def dict_item_def split: option.split)

lemma update_other:
  "dict_get sensor_data ''sensor_type'' \<noteq> PStr ''temperature'' \<Longrightarrow>
   dict_get sensor_data ''sensor_type'' \<noteq> PStr ''pir'' \<Longrightarrow>
   dict_get sensor_data ''sensor_type'' \<noteq> PStr ''ldr'' \<Longrightarrow>
   RoomController_update self sensor_data = (Inr (), self)"
  by (simp add: RoomController_update_def)

text \<open>
  C7. A reading tagged \<^verbatim>\<open>'temperature'\<close> can change no attribute of the room other
  than \<^verbatim>\<open>current_temp\<close>, and when it carries its \<^verbatim>\<open>'value'\<close> the call returns and
  the room is the old one with \<^verbatim>\<open>current_temp\<close> overwritten by it; likewise
  \<^verbatim>\<open>'pir'\<close> with \<^verbatim>\<open>'occupied'\<close> and \<^verbatim>\<open>is_occupied\<close>, and \<^verbatim>\<open>'ldr'\<close> with
  \<^verbatim>\<open>'value'\<close> and \<^verbatim>\<open>current_light_level\<close>. The room name, both state machines
  and the two other cached values are as before. A reading with any other tag (any
  object that is none of the three strings) returns without an error and leaves the
  whole room as it was.
\<close>

theorem update_frame:
  "(sensor_data ''sensor_type'' = Some (PStr ''temperature'') \<longrightarrow>
      snd (RoomController_update self sensor_data)
        = self\<lparr>current_temp := current_temp (snd (RoomController_update self sensor_data))\<rparr>
      \<and> (\<forall>v. sensor_data ''value'' = Some v \<longrightarrow>
            RoomController_update self sensor_data = (Inr (), self\<lparr>current_temp := v\<rparr>)))
   \<and> (sensor_data ''sensor_type'' = Some (PStr ''pir'') \<longrightarrow>
      snd (RoomController_update self sensor_data)
        = self\<lparr>is_occupied := is_occupied (snd (RoomController_update self sensor_data))\<rparr>
      \<and> (\<forall>v. sensor_data ''occupied'' = Some v \<longrightarrow>
            RoomController_update self sensor_data = (Inr (), self\<lparr>is_occupied := v\<rparr>)))
   \<and> (sensor_data ''sensor_type'' = Some (PStr ''ldr'') \<longrightarrow>
      snd (RoomController_update self sensor_data)
        = self\<lparr>current_light_level := current_light_level (snd (RoomController_update self sensor_data))\<rparr>
      \<and> (\<forall>v. sensor_data ''value'' = Some v \<longrightarrow>
            RoomController_update self sensor_data = (Inr (), self\<lparr>current_light_level := v\<rparr>)))
   \<and> (sensor_data ''sensor_type'' = Some tag \<and>
      tag \<noteq> PStr ''temperature'' \<and> tag \<noteq> PStr ''pir'' \<and> tag \<noteq> PStr ''ldr'' \<longrightarrow>
      RoomController_update self sensor_data = (Inr (), self))"
proof (intro conjI impI allI)
  assume "sensor_data ''sensor_type'' = Some (PStr ''temperature'')"
  then show "snd (RoomController_update self sensor_data)
      = self\<lparr>current_temp := current_temp (snd (RoomController_update self sensor_data))\<rparr>"
    by (simp add: update_temperature split: option.split)
next
  fix v
  assume "sensor_data ''sensor_type'' = Some (PStr ''temperature'')" and "sensor_data ''value'' = Some v"
  then show "RoomController_update self sensor_data = (Inr (), self\<lparr>current_temp := v\<rparr>)"
    by (simp add: update_temperature)
next
  assume "sensor_data ''sensor_type'' = Some (PStr ''pir'')"
  then show "snd (RoomController_update self sensor_data)
      = self\<lparr>is_occupied := is_occupied (snd (RoomController_update self sensor_data))\<rparr>"
    by (simp add: update_pir split: option.split)
next
  fix v
  assume "sensor_data ''sensor_type'' = Some (PStr ''pir'')" and "sensor_data ''occupied'' = Some v"
  then show "RoomController_update self sensor_data = (Inr (), self\<lparr>is_occupied := v\<rparr>)"
    by (simp add: update_pir)
next
  assume "sensor_data ''sensor_type'' = Some (PStr ''ldr'')"
  then show "snd (RoomController_update self sensor_data)
      = self\<lparr>current_light_level := current_light_level (snd (RoomController_update self sensor_data))\<rparr>"
    by (simp add: update_ldr split: option.split)
next
  fix v
  assume "sensor_data ''sensor_type'' = Some (PStr ''ldr'')" and "sensor_data ''value'' = Some v"
  then show "RoomController_update self sensor_data = (Inr (), self\<lparr>current_light_level := v\<rparr>)"
    by (simp add: update_ldr)
next
  assume "sensor_data ''sensor_type'' = Some tag \<and>
    tag \<noteq> PStr ''temperature'' \<and> tag \<noteq> PStr ''pir'' \<and> tag \<noteq> PStr ''ldr''"
  then show "RoomController_update self sensor_data = (Inr (), self)"
    by (simp add: update_other dict_get_def)
qed

theorem update_frame_witness:
  "RoomController_update (RoomController_init ''Living Room'')
       [''sensor_type'' \<mapsto> PStr ''temperature'', ''value'' \<mapsto> PFloat (FVal 31)]
     = (Inr (), (RoomController_init ''Living Room'')\<lparr>current_temp := PFloat (FVal 31)\<rparr>)
   \<and> RoomController_update (RoomController_init ''Living Room'')
       [''sensor_type'' \<mapsto> PStr ''humidity'', ''value'' \<mapsto> PInt 40]
     = (Inr (), RoomController_init ''Living Room'')"
  using update_frame [of "[''sensor_type'' \<mapsto> PStr ''temperature'', ''value'' \<mapsto> PFloat (FVal 31)]"
      "RoomController_init ''Living Room''" "PStr ''temperature''"]
    update_frame [of "[''sensor_type'' \<mapsto> PStr ''humidity'', ''value'' \<mapsto> PInt 40]"
      "RoomController_init ''Living Room''" "PStr ''humidity''"]
  by simp

text \<open>
  C8. A reading with a recognised tag but without the key that tag reads
  (\<^verbatim>\<open>'value'\<close> for \<^verbatim>\<open>'temperature'\<close> and \<^verbatim>\<open>'ldr'\<close>, \<^verbatim>\<open>'occupied'\<close> for
  \<^verbatim>\<open>'pir'\<close>) makes \<^verbatim>\<open>update\<close> raise KeyError for that key, and the room, so each of
  the three cached values, is as before the call.
\<close>

theorem update_missing_field_raises:
  "(sensor_data ''sensor_type'' = Some (PStr ''temperature'') \<and> sensor_data ''value'' = None \<longrightarrow>
      RoomController_update self sensor_data = (Inl (KeyError ''value''), self))
   \<and> (sensor_data ''sensor_type'' = Some (PStr ''pir'') \<and> sensor_data ''occupied'' = None \<longrightarrow>
      RoomController_update self sensor_data = (Inl (KeyError ''occupied''), self))
   \<and> (sensor_data ''sensor_type'' = Some (PStr ''ldr'') \<and> sensor_data ''value'' = None \<longrightarrow>
      RoomController_update self sensor_data = (Inl (KeyError ''value''), self))"
  by (simp add: update_temperature update_pir update_ldr)

theorem update_missing_field_raises_witness:
  "RoomController_update (RoomController_init ''Living Room'') [''sensor_type'' \<mapsto> PStr ''temperature'']
     = (Inl (KeyError ''value''), RoomController_init ''Living Room'')
   \<and> RoomController_update (RoomController_init ''Living Room'')
        [''sensor_type'' \<mapsto> PStr ''pir'', ''value'' \<mapsto> PBool True]
     = (Inl (KeyError ''occupied''), RoomController_init ''Living Room'')"
  using update_missing_field_raises [of "[''sensor_type'' \<mapsto> PStr ''temperature'']"
      "RoomController_init ''Living Room''"]
    update_missing_field_raises [of "[''sensor_type'' \<mapsto> PStr ''pir'', ''value'' \<mapsto> PBool True]"
      "RoomController_init ''Living Room''"]
  by simp

text \<open>
  C10. A reading without the key \<^verbatim>\<open>'sensor_type'\<close>: \<^verbatim>\<open>.get\<close> yields \<^verbatim>\<open>None\<close>, no
  branch is taken, \<^verbatim>\<open>update\<close> returns without an error and the room is as before.
\<close>

theorem update_absent_tag_noop:
  "sensor_data ''sensor_type'' = None \<Longrightarrow>
   RoomController_update self sensor_data = (Inr (), self)"
  by (simp add: update_other dict_get_def)

theorem update_absent_tag_noop_witness:
  "RoomController_update (RoomController_init ''Living Room'') [''value'' \<mapsto> PFloat (FVal 31)]
     = (Inr (), RoomController_init ''Living Room'')"
  using update_absent_tag_noop [of "[''value'' \<mapsto> PFloat (FVal 31)]" "RoomController_init ''Living Room''"]
  by simp

text \<open>
  C9. A new room has \<^verbatim>\<open>current_temp = 20.0\<close>, \<^verbatim>\<open>is_occupied = False\<close>,
  \<^verbatim>\<open>current_light_level = 500\<close> and both state machines in \<^verbatim>\<open>"OFF"\<close>. After the
  readings occupancy \<^verbatim>\<open>True\<close>, temperature \<^verbatim>\<open>29.0\<close> and light level \<^verbatim>\<open>50\<close>, each
  accepted by \<^verbatim>\<open>update\<close>, the call \<^verbatim>\<open>ac.update_state(is_occupied, current_temp)\<close>
  returns and stores \<^verbatim>\<open>"COOLING"\<close> and the call
  \<^verbatim>\<open>lights.update_state(is_occupied, current_light_level)\<close> returns and stores
  \<^verbatim>\<open>"ON"\<close>.
\<close>

theorem room_scenario:
  "current_temp (RoomController_init name) = PFloat (FVal 20)
   \<and> is_occupied (RoomController_init name) = PBool False
   \<and> current_light_level (RoomController_init name) = PInt 500
   \<and> ACController.state (ac (RoomController_init name)) = ''OFF''
   \<and> LightController.state (lights (RoomController_init name)) = ''OFF''
   \<and> (let (o1, r1) = RoomController_update (RoomController_init name)
                        [''sensor_type'' \<mapsto> PStr ''pir'', ''occupied'' \<mapsto> PBool True];
           (o2, r2) = RoomController_update r1
                        [''sensor_type'' \<mapsto> PStr ''temperature'', ''value'' \<mapsto> PFloat (FVal 29)];
           (o3, r3) = RoomController_update r2
                        [''sensor_type'' \<mapsto> PStr ''ldr'', ''value'' \<mapsto> PInt 50]
       in o1 = Inr () \<and> o2 = Inr () \<and> o3 = Inr ()
          \<and> ACController_update_state (ac r3) (is_occupied r3) (current_temp r3)
              = (Inr ''COOLING'', \<lparr>ACController.state = ''COOLING''\<rparr>)
          \<and> LightController_update_state (lights r3) (is_occupied r3) (current_light_level r3)
              = (Inr ''ON'', \<lparr>LightController.state = ''ON''\<rparr>))"
  by (simp add: RoomController_init_def ACController_init_def LightController_init_def
      update_temperature update_pir update_ldr
      ACController_update_state_def LightController_update_state_def Let_def)

theorem room_scenario_witness:
  "(let (o1, r1) = RoomController_update (RoomController_init ''Living Room'')
                        [''sensor_type'' \<mapsto> PStr ''pir'', ''occupied'' \<mapsto> PBool True];
           (o2, r2) = RoomController_update r1
                        [''sensor_type'' \<mapsto> PStr ''temperature'', ''value'' \<mapsto> PFloat (FVal 29)];
           (o3, r3) = RoomController_update r2
                        [''sensor_type'' \<mapsto> PStr ''ldr'', ''value'' \<mapsto> PInt 50]
       in fst (ACController_update_state (ac r3) (is_occupied r3) (current_temp r3)) = Inr ''COOLING''
          \<and> fst (LightController_update_state (lights r3) (is_occupied r3) (current_light_level r3))
              = Inr ''ON'')"
  using room_scenario [of "''Living Room''"]
  by (simp add: Let_def split: prod.splits)

end
